theory Spec2Isabelle
  imports Main
begin

section \<open>The implementors fragment for \<open>core::iter::FromIterator\<close>\<close>

text \<open>
  The source is one immediately invoked function expression,
  \<^verbatim>\<open>doc/implementors/core/iter/trait.FromIterator.js\<close>:
  it builds the object \<open>implementors\<close> by three property assignments and then either
  calls \<open>window.register_implementors\<close> with it or stores it in
  \<open>window.pending_implementors\<close>. The script has no loop, reads one property of the
  global object and writes at most one.
\<close>

subsection \<open>Values and objects\<close>

text \<open>
  The values a property of the global object can hold. Only two things are asked of the
  value of \<open>register_implementors\<close>: whether it is truthy (the \<open>if\<close>) and
  whether it can be called (the call expression). Numbers are kept to the integers and
  \<open>NaN\<close>, which is all that truthiness tells apart; objects are kept to the shape the
  fragment builds, string keys holding arrays of strings; a function is named by an
  identifier.
\<close>

type_synonym obj = "(string \<times> string list) list"

datatype jsval =
    JUndefined
  | JNull
  | JBool bool
  | JNum int
  | JNaN
  | JStr string
  | JObj obj
  | JFun nat

text \<open>
  The condition of an \<open>if\<close> converts its value to a boolean: \<open>undefined\<close>,
  \<open>null\<close>, \<open>false\<close>, \<open>0\<close>, \<open>NaN\<close> and the empty string are falsy,
  every other value (every object and every function among them) is truthy.
\<close>

fun truthy :: "jsval \<Rightarrow> bool" where
  "truthy JUndefined = False"
| "truthy JNull = False"
| "truthy (JBool b) = b"
| "truthy (JNum n) = (n \<noteq> 0)"
| "truthy JNaN = False"
| "truthy (JStr s) = (s \<noteq> [])"
| "truthy (JObj ps) = True"
| "truthy (JFun f) = True"

text \<open>
  \<open>o[k] = v\<close> on an ordinary object: an existing key keeps its place and takes the new
  value, a new key is added after the others.
\<close>

fun assign :: "string \<Rightarrow> 'v \<Rightarrow> (string \<times> 'v) list \<Rightarrow> (string \<times> 'v) list" where
  "assign k v [] = [(k, v)]"
| "assign k v ((k', v') # ps) =
     (if k = k' then (k, v) # ps else (k', v') # assign k v ps)"

subsection \<open>The global object\<close>

text \<open>
  \<open>window\<close> maps property names to values. Reading a property that is absent gives
  \<open>undefined\<close>, as reading one that holds \<open>undefined\<close> does; \<open>window.p = v\<close> is
  \<open>w(p \<mapsto> v)\<close>. Properties are plain data properties.
\<close>

type_synonym window = "string \<rightharpoonup> jsval"

definition read_prop :: "window \<Rightarrow> string \<Rightarrow> jsval" where
  "read_prop w p = (case w p of None \<Rightarrow> JUndefined | Some v \<Rightarrow> v)"

subsection \<open>What a run does\<close>

text \<open>
  A run is described by the global object it leaves, the effects its own statements had on
  the outside, in order (a call with its argument list, a store into a property of
  \<open>window\<close>), and how it ended. The function body has no \<open>return\<close>, so a run that
  ends normally yields \<open>undefined\<close>; the only exception the script's own code can raise
  is the \<open>TypeError\<close> of calling a value that is not a function.
\<close>

datatype error = TypeError

datatype completion = Returned jsval | Threw error

datatype action = Invoked nat "jsval list" | Stored string jsval

record run =
  page :: window
  actions :: "action list"
  result :: completion

text \<open>
  Modelled from the spec: the Page Controller, whose source is not part of the fragment.
  Section 4.2 requires that calling it is safe, so the call of a function value returns;
  the value it returns is dropped by the expression statement. The call is recorded with
  its arguments, and what the controller's own body does to the page is the controller's
  effect, not the fragment's, and is left out of \<open>page\<close>. Calling anything else
  raises \<open>TypeError\<close> before any effect.
\<close>

definition call :: "jsval \<Rightarrow> jsval list \<Rightarrow> window \<Rightarrow> run" where
  "call v args w =
     (case v of
        JFun f \<Rightarrow> \<lparr>page = w, actions = [Invoked f args], result = Returned JUndefined\<rparr>
      | _ \<Rightarrow> \<lparr>page = w, actions = [], result = Threw TypeError\<rparr>)"

subsection \<open>The fragment\<close>

definition ndarray_entry :: string where
  "ndarray_entry = ''impl&lt;A, S&gt; <a class='trait' href='https://doc.rust-lang.org/nightly/core/iter/trait.FromIterator.html' title='core::iter::FromIterator'>FromIterator</a>&lt;A&gt; for <a class='struct' href='ndarray/struct.ArrayBase.html' title='ndarray::ArrayBase'>ArrayBase</a>&lt;S, <a class='type' href='ndarray/type.Ix.html' title='ndarray::Ix'>Ix</a>&gt; <span class='where'>where S: <a class='trait' href='ndarray/trait.DataOwned.html' title='ndarray::DataOwned'>DataOwned</a>&lt;Elem=A&gt;</span>''"

definition sprs_entry :: string where
  "sprs_entry = ''impl&lt;A, S&gt; <a class='trait' href='https://doc.rust-lang.org/nightly/core/iter/trait.FromIterator.html' title='core::iter::FromIterator'>FromIterator</a>&lt;A&gt; for <a class='struct' href='ndarray/struct.ArrayBase.html' title='ndarray::ArrayBase'>ArrayBase</a>&lt;S, <a class='primitive' href='https://doc.rust-lang.org/nightly/std/primitive.usize.html'>usize</a>&gt; <span class='where'>where S: <a class='trait' href='ndarray/data_traits/trait.DataOwned.html' title='ndarray::data_traits::DataOwned'>DataOwned</a>&lt;Elem=A&gt;</span>''"

text \<open>
  \<^verbatim>\<open>var implementors = {}; implementors['libc'] = [];\<close>
  \<^verbatim>\<open>implementors['ndarray'] = ["...",]; implementors['sprs'] = ["...",];\<close>
  The comma before the closing bracket of an array literal adds no element.
\<close>

definition implementors :: obj where
  "implementors =
     (let i0 = [];
          i1 = assign ''libc'' [] i0;
          i2 = assign ''ndarray'' [ndarray_entry] i1;
          i3 = assign ''sprs'' [sprs_entry] i2
      in i3)"

text \<open>
  \<^verbatim>\<open>if (window.register_implementors) { window.register_implementors(implementors); }\<close>
  \<^verbatim>\<open>else { window.pending_implementors = implementors; }\<close>
\<close>

definition fragment :: "window \<Rightarrow> run" where
  "fragment w =
     (if truthy (read_prop w ''register_implementors'')
      then call (read_prop w ''register_implementors'') [JObj implementors] w
      else \<lparr>page = w(''pending_implementors'' \<mapsto> JObj implementors),
            actions = [Stored ''pending_implementors'' (JObj implementors)],
            result = Returned JUndefined\<rparr>)"

subsection \<open>Reading a run\<close>

text \<open>
  The two hand-off actions, read off the effects of a run: the calls it made, and the
  values it stored into \<open>window.pending_implementors\<close>. \<open>handed\<close> is what an
  action passes on: the argument list of a call, the value of a store.
\<close>

fun is_invoked :: "action \<Rightarrow> bool" where
  "is_invoked (Invoked f args) = True"
| "is_invoked (Stored p v) = False"

fun slot_store :: "action \<Rightarrow> jsval option" where
  "slot_store (Invoked f args) = None"
| "slot_store (Stored p v) = (if p = ''pending_implementors'' then Some v else None)"

fun handed :: "action \<Rightarrow> jsval list" where
  "handed (Invoked f args) = args"
| "handed (Stored p v) = [v]"

definition invocations :: "run \<Rightarrow> action list" where
  "invocations r = filter is_invoked (actions r)"

definition slot_writes :: "run \<Rightarrow> jsval list" where
  "slot_writes r = List.map_filter slot_store (actions r)"


section \<open>The three ways a run can go\<close>

lemma implementors_eq:
  "implementors = [(''libc'', []), (''ndarray'', [ndarray_entry]), (''sprs'', [sprs_entry])]"
  by (simp add: implementors_def)

lemma falsy_values:
  "\<not> truthy v \<longleftrightarrow> v \<in> {JUndefined, JNull, JBool False, JNum 0, JNaN, JStr []}"
  by (cases v) auto

lemma fragment_falsy:
  assumes "\<not> truthy (read_prop w ''register_implementors'')"
  shows "fragment w =
    \<lparr>page = w(''pending_implementors'' \<mapsto> JObj implementors),
     actions = [Stored ''pending_implementors'' (JObj implementors)],
     result = Returned JUndefined\<rparr>"
  using assms by (simp add: fragment_def)

lemma fragment_function:
  assumes "read_prop w ''register_implementors'' = JFun f"
  shows "fragment w =
    \<lparr>page = w, actions = [Invoked f [JObj implementors]], result = Returned JUndefined\<rparr>"
  using assms by (simp add: fragment_def call_def)

lemma fragment_not_callable:
  assumes "truthy (read_prop w ''register_implementors'')"
    and "\<And>f. read_prop w ''register_implementors'' \<noteq> JFun f"
  shows "fragment w = \<lparr>page = w, actions = [], result = Threw TypeError\<rparr>"
  using assms
  by (cases "read_prop w ''register_implementors''") (auto simp add: fragment_def call_def)

text \<open>Every run is one of the three.\<close>

lemma fragment_cases:
  obtains
    (deferred) "\<not> truthy (read_prop w ''register_implementors'')"
  | (direct) f where "read_prop w ''register_implementors'' = JFun f"
  | (not_callable) "truthy (read_prop w ''register_implementors'')"
      and "\<And>f. read_prop w ''register_implementors'' \<noteq> JFun f"
  by (cases "read_prop w ''register_implementors''") auto

lemma throws_iff:
  "result (fragment w) = Threw TypeError \<longleftrightarrow>
     truthy (read_prop w ''register_implementors'') \<and>
     (\<forall>f. read_prop w ''register_implementors'' \<noteq> JFun f)"
  by (cases w rule: fragment_cases)
     (simp_all add: fragment_falsy fragment_function fragment_not_callable)

section \<open>The hand-off\<close>




text \<open>
  Claim C2, as amended. When \<open>window.register_implementors\<close> holds a function before
  the run, the condition finds it present, and the run's only effect is one call of that
  function, with the mapping the fragment built as its sole argument; nothing is stored
  into \<open>window.pending_implementors\<close>, and the global object is as it was.
\<close>

theorem direct_call:
  assumes "read_prop w ''register_implementors'' = JFun f"
  shows "truthy (read_prop w ''register_implementors'')
       \<and> actions (fragment w) = [Invoked f [JObj implementors]]
       \<and> slot_writes (fragment w) = []
       \<and> page (fragment w) = w
       \<and> result (fragment w) = Returned JUndefined"
  using assms by (simp add: fragment_function slot_writes_def List.map_filter_simps)

theorem direct_call_witness:
  "read_prop (Map.empty(''register_implementors'' \<mapsto> JFun 7)) ''register_implementors'' = JFun 7
   \<and> actions (fragment (Map.empty(''register_implementors'' \<mapsto> JFun 7)))
       = [Invoked 7 [JObj [(''libc'', []), (''ndarray'', [ndarray_entry]), (''sprs'', [sprs_entry])]]]
   \<and> page (fragment (Map.empty(''register_implementors'' \<mapsto> JFun 7))) ''pending_implementors'' = None"
proof -
  have h: "read_prop (Map.empty(''register_implementors'' \<mapsto> JFun 7)) ''register_implementors'' = JFun 7"
    by (simp add: read_prop_def)
  show ?thesis using h direct_call [OF h] by (simp add: implementors_eq)
qed

text \<open>
  Claim C2 as it is written takes the reference to be present whenever the condition of
  the \<open>if\<close> holds. It fails where \<open>window.register_implementors\<close> is a non-empty
  string: the condition holds, the call of a string raises \<open>TypeError\<close>, and nothing
  has been called.
\<close>

theorem present_not_called_counterexample:
  "truthy (read_prop (Map.empty(''register_implementors'' \<mapsto> JStr ''loading'')) ''register_implementors'')
   \<and> invocations (fragment (Map.empty(''register_implementors'' \<mapsto> JStr ''loading''))) = []
   \<and> actions (fragment (Map.empty(''register_implementors'' \<mapsto> JStr ''loading''))) = []
   \<and> result (fragment (Map.empty(''register_implementors'' \<mapsto> JStr ''loading''))) = Threw TypeError"
  by (simp add: fragment_def call_def read_prop_def invocations_def)

text \<open>
  Claim C3. When the script finds no controller (the value it reads from
  \<open>window.register_implementors\<close> is falsy, the absent property among them), then after
  the run \<open>window.pending_implementors\<close> holds the mapping the fragment built, and the
  run has called nothing.
\<close>

theorem deferred_handoff:
  assumes "\<not> truthy (read_prop w ''register_implementors'')"
  shows "page (fragment w) ''pending_implementors'' = Some (JObj implementors)
       \<and> read_prop (page (fragment w)) ''pending_implementors'' = JObj implementors
       \<and> invocations (fragment w) = []
       \<and> (\<forall>f args. Invoked f args \<notin> set (actions (fragment w)))"
  using assms by (simp add: fragment_falsy invocations_def read_prop_def)

theorem deferred_handoff_witness:
  "\<not> truthy (read_prop Map.empty ''register_implementors'')
   \<and> page (fragment Map.empty) ''pending_implementors''
       = Some (JObj [(''libc'', []), (''ndarray'', [ndarray_entry]), (''sprs'', [sprs_entry])])
   \<and> invocations (fragment Map.empty) = []"
proof -
  have h: "\<not> truthy (read_prop Map.empty ''register_implementors'')"
    by (simp add: read_prop_def)
  show ?thesis using h deferred_handoff [OF h] by (simp add: implementors_eq)
qed

text \<open>
  Claim C4. The mapping is built from the empty object by three assignments. It has
  exactly the keys \<open>libc\<close>, \<open>ndarray\<close> and \<open>sprs\<close>; \<open>libc\<close> holds the empty
  sequence, which is not the same as the key being absent; \<open>ndarray\<close> and \<open>sprs\<close>
  each hold a sequence of one descriptor. This mapping is what is handed off: on the
  deferred path the run stores it into \<open>window.pending_implementors\<close>, on the direct
  path the run passes it to the function it calls, and no action of any run carries
  anything else.
\<close>

theorem implementors_mapping:
  "implementors =
     assign ''sprs'' [sprs_entry] (assign ''ndarray'' [ndarray_entry] (assign ''libc'' [] []))
   \<and> dom (map_of implementors) = {''libc'', ''ndarray'', ''sprs''}
   \<and> distinct (map fst implementors)
   \<and> map_of implementors ''libc'' = Some []
   \<and> map_of implementors ''libc'' \<noteq> None
   \<and> map_of implementors ''ndarray'' = Some [ndarray_entry]
   \<and> map_of implementors ''sprs'' = Some [sprs_entry]
   \<and> list_all (\<lambda>a. handed a = [JObj implementors]) (actions (fragment w))
   \<and> (\<not> truthy (read_prop w ''register_implementors'') \<longrightarrow>
        actions (fragment w) = [Stored ''pending_implementors'' (JObj implementors)]
        \<and> page (fragment w) ''pending_implementors'' = Some (JObj implementors))
   \<and> (\<forall>f. read_prop w ''register_implementors'' = JFun f \<longrightarrow>
        actions (fragment w) = [Invoked f [JObj implementors]])"
proof -
  have h: "list_all (\<lambda>a. handed a = [JObj implementors]) (actions (fragment w))"
    by (cases w rule: fragment_cases)
       (simp_all add: fragment_falsy fragment_function fragment_not_callable)
  have d: "dom (map_of implementors) = {''libc'', ''ndarray'', ''sprs''}"
    by (auto simp add: implementors_eq dom_def)
  have c: "implementors =
     assign ''sprs'' [sprs_entry] (assign ''ndarray'' [ndarray_entry] (assign ''libc'' [] []))
   \<and> distinct (map fst implementors)
   \<and> map_of implementors ''libc'' = Some []
   \<and> map_of implementors ''libc'' \<noteq> None
   \<and> map_of implementors ''ndarray'' = Some [ndarray_entry]
   \<and> map_of implementors ''sprs'' = Some [sprs_entry]"
    by (simp add: implementors_eq)
  have s: "\<not> truthy (read_prop w ''register_implementors'') \<longrightarrow>
        actions (fragment w) = [Stored ''pending_implementors'' (JObj implementors)]
        \<and> page (fragment w) ''pending_implementors'' = Some (JObj implementors)"
    by (simp add: fragment_falsy)
  have i: "\<forall>f. read_prop w ''register_implementors'' = JFun f \<longrightarrow>
        actions (fragment w) = [Invoked f [JObj implementors]]"
    by (simp add: fragment_function)
  from c d h s i show ?thesis by blast
qed

theorem implementors_mapping_witness:
  "\<not> truthy (read_prop Map.empty ''register_implementors'')
   \<and> actions (fragment Map.empty)
       = [Stored ''pending_implementors''
           (JObj [(''libc'', []), (''ndarray'', [ndarray_entry]), (''sprs'', [sprs_entry])])]
   \<and> read_prop (Map.empty(''register_implementors'' \<mapsto> JFun 2)) ''register_implementors'' = JFun 2
   \<and> actions (fragment (Map.empty(''register_implementors'' \<mapsto> JFun 2)))
       = [Invoked 2 [JObj [(''libc'', []), (''ndarray'', [ndarray_entry]), (''sprs'', [sprs_entry])]]]"
proof -
  have h: "\<not> truthy (read_prop Map.empty ''register_implementors'')"
    by (simp add: read_prop_def)
  have g: "read_prop (Map.empty(''register_implementors'' \<mapsto> JFun 2)) ''register_implementors'' = JFun 2"
    by (simp add: read_prop_def)
  have a: "actions (fragment Map.empty) = [Stored ''pending_implementors'' (JObj implementors)]"
    using h implementors_mapping [of Map.empty] by blast
  have b: "actions (fragment (Map.empty(''register_implementors'' \<mapsto> JFun 2)))
       = [Invoked 2 [JObj implementors]]"
    using g implementors_mapping [of "Map.empty(''register_implementors'' \<mapsto> JFun 2)"] by blast
  show ?thesis using h g a b by (simp add: implementors_eq)
qed

text \<open>
  Claim C5. When the script finds no controller, the store into
  \<open>window.pending_implementors\<close> replaces whatever was there: for every earlier content
  \<open>old\<close> of the slot (absent, or any value), the slot afterwards holds the new mapping
  and the page is the one a run from an empty slot leaves. The store is the run's only
  effect, and the run ends normally.
\<close>

theorem slot_overwritten:
  assumes "\<not> truthy (read_prop w ''register_implementors'')"
  shows "page (fragment (w(''pending_implementors'' := old))) ''pending_implementors''
           = Some (JObj implementors)
       \<and> page (fragment (w(''pending_implementors'' := old))) = page (fragment w)
       \<and> actions (fragment (w(''pending_implementors'' := old)))
           = [Stored ''pending_implementors'' (JObj implementors)]
       \<and> result (fragment (w(''pending_implementors'' := old))) = Returned JUndefined"
proof -
  have "read_prop (w(''pending_implementors'' := old)) ''register_implementors''
        = read_prop w ''register_implementors''"
    by (simp add: read_prop_def)
  with assms
  have "\<not> truthy (read_prop (w(''pending_implementors'' := old)) ''register_implementors'')"
    by simp
  then show ?thesis using assms by (simp add: fragment_falsy)
qed

theorem slot_overwritten_witness:
  "\<not> truthy (read_prop Map.empty ''register_implementors'')
   \<and> page (fragment (Map.empty(''pending_implementors'' \<mapsto> JObj [(''std'', [''old'', ''entries''])])))
        ''pending_implementors''
       = Some (JObj [(''libc'', []), (''ndarray'', [ndarray_entry]), (''sprs'', [sprs_entry])])"
proof -
  have h: "\<not> truthy (read_prop Map.empty ''register_implementors'')"
    by (simp add: read_prop_def)
  show ?thesis
    using h slot_overwritten [OF h, of "Some (JObj [(''std'', [''old'', ''entries''])])", THEN conjunct1]
    by (simp add: implementors_eq)
qed

section \<open>Frame, completion and determinism\<close>

text \<open>
  Claim C6. A run reads \<open>window.register_implementors\<close> and leaves it as it was; every
  property of the global object other than \<open>pending_implementors\<close> is unchanged by the
  run; and the only property the script's own statements store into is
  \<open>pending_implementors\<close>.
\<close>

theorem fragment_frame:
  "page (fragment w) ''register_implementors'' = w ''register_implementors''
   \<and> (\<forall>p. p \<noteq> ''pending_implementors'' \<longrightarrow> page (fragment w) p = w p)
   \<and> (\<forall>p v. Stored p v \<in> set (actions (fragment w)) \<longrightarrow> p = ''pending_implementors'')"
proof (cases w rule: fragment_cases)
  case deferred
  then show ?thesis by (simp add: fragment_falsy)
next
  case (direct f)
  then show ?thesis by (simp add: fragment_function)
next
  case not_callable
  then have "fragment w = \<lparr>page = w, actions = [], result = Threw TypeError\<rparr>"
    by (rule fragment_not_callable)
  then show ?thesis by simp
qed

theorem fragment_frame_witness:
  "''rootPath'' \<noteq> ''pending_implementors''
   \<and> page (fragment (Map.empty(''rootPath'' \<mapsto> JStr ''../''))) ''rootPath'' = Some (JStr ''../'')
   \<and> page (fragment (Map.empty(''rootPath'' \<mapsto> JStr ''../''))) ''register_implementors'' = None
   \<and> Stored ''pending_implementors'' (JObj implementors)
        \<in> set (actions (fragment (Map.empty(''rootPath'' \<mapsto> JStr ''../''))))"
proof -
  have h: "''rootPath'' \<noteq> ''pending_implementors''" by simp
  have a: "Stored ''pending_implementors'' (JObj implementors)
        \<in> set (actions (fragment (Map.empty(''rootPath'' \<mapsto> JStr ''../''))))"
    by (simp add: fragment_def read_prop_def)
  show ?thesis
    using h a
      fragment_frame [of "Map.empty(''rootPath'' \<mapsto> JStr ''../'')", THEN conjunct1]
      fragment_frame [of "Map.empty(''rootPath'' \<mapsto> JStr ''../'')", THEN conjunct2,
        THEN conjunct1, THEN spec, of "''rootPath''"]
    by simp
qed

text \<open>
  Claim C7, as amended. In every initial page in which \<open>window.register_implementors\<close>
  is absent, falsy or a function, the run ends normally and yields \<open>undefined\<close>, and
  its one hand-off action is its only effect on the outside: nothing is logged, nothing
  is raised, also when the mapping is stored and never read again.
\<close>

theorem fragment_completes:
  assumes "\<not> truthy (read_prop w ''register_implementors'')
           \<or> (\<exists>f. read_prop w ''register_implementors'' = JFun f)"
  shows "result (fragment w) = Returned JUndefined
       \<and> (actions (fragment w) = [Stored ''pending_implementors'' (JObj implementors)]
          \<or> (\<exists>f. actions (fragment w) = [Invoked f [JObj implementors]]))"
  using assms by (auto simp add: fragment_falsy fragment_function)

theorem fragment_completes_witness:
  "\<not> truthy (read_prop Map.empty ''register_implementors'')
   \<and> result (fragment Map.empty) = Returned JUndefined
   \<and> read_prop (Map.empty(''register_implementors'' \<mapsto> JFun 3)) ''register_implementors'' = JFun 3
   \<and> result (fragment (Map.empty(''register_implementors'' \<mapsto> JFun 3))) = Returned JUndefined"
proof -
  have h: "\<not> truthy (read_prop Map.empty ''register_implementors'')"
    by (simp add: read_prop_def)
  have g: "read_prop (Map.empty(''register_implementors'' \<mapsto> JFun 3)) ''register_implementors'' = JFun 3"
    by (simp add: read_prop_def)
  from g have g': "\<exists>f. read_prop (Map.empty(''register_implementors'' \<mapsto> JFun 3)) ''register_implementors'' = JFun f"
    by blast
  show ?thesis
    using h g fragment_completes [OF disjI1, OF h] fragment_completes [OF disjI2, OF g']
    by simp
qed

text \<open>
  Claim C7 as it is written, for every initial page, fails where
  \<open>window.register_implementors\<close> is \<open>true\<close>: the condition holds, \<open>true\<close> is
  not a function, and the run ends with \<open>TypeError\<close>.
\<close>

theorem not_callable_counterexample:
  "result (fragment (Map.empty(''register_implementors'' \<mapsto> JBool True))) = Threw TypeError
   \<and> result (fragment (Map.empty(''register_implementors'' \<mapsto> JBool True))) \<noteq> Returned JUndefined
   \<and> actions (fragment (Map.empty(''register_implementors'' \<mapsto> JBool True))) = []"
  by (simp add: fragment_def call_def read_prop_def)

text \<open>
  Claim C8. When \<open>window.register_implementors\<close> is absent, falsy or a function, the
  run does not raise: it ends normally. A call is made only of a value that the condition
  found truthy and that is a function.
\<close>

theorem fragment_total:
  assumes "w ''register_implementors'' = None
           \<or> \<not> truthy (read_prop w ''register_implementors'')
           \<or> (\<exists>f. read_prop w ''register_implementors'' = JFun f)"
  shows "result (fragment w) \<noteq> Threw TypeError
       \<and> result (fragment w) = Returned JUndefined
       \<and> (\<forall>f args. Invoked f args \<in> set (actions (fragment w)) \<longrightarrow>
            truthy (read_prop w ''register_implementors'')
            \<and> read_prop w ''register_implementors'' = JFun f)"
proof -
  from assms have "\<not> truthy (read_prop w ''register_implementors'')
           \<or> (\<exists>f. read_prop w ''register_implementors'' = JFun f)"
    by (auto simp add: read_prop_def)
  then show ?thesis by (auto simp add: fragment_falsy fragment_function)
qed

theorem fragment_total_witness:
  "(Map.empty :: window) ''register_implementors'' = None
   \<and> result (fragment Map.empty) = Returned JUndefined
   \<and> \<not> truthy (read_prop (Map.empty(''register_implementors'' \<mapsto> JNum 0)) ''register_implementors'')
   \<and> result (fragment (Map.empty(''register_implementors'' \<mapsto> JNum 0))) = Returned JUndefined
   \<and> read_prop (Map.empty(''register_implementors'' \<mapsto> JFun 5)) ''register_implementors'' = JFun 5
   \<and> result (fragment (Map.empty(''register_implementors'' \<mapsto> JFun 5))) = Returned JUndefined
   \<and> actions (fragment (Map.empty(''register_implementors'' \<mapsto> JFun 5))) = [Invoked 5 [JObj implementors]]"
proof -
  have a: "(Map.empty :: window) ''register_implementors'' = None" by simp
  have b: "\<not> truthy (read_prop (Map.empty(''register_implementors'' \<mapsto> JNum 0)) ''register_implementors'')"
    by (simp add: read_prop_def)
  have c: "read_prop (Map.empty(''register_implementors'' \<mapsto> JFun 5)) ''register_implementors'' = JFun 5"
    by (simp add: read_prop_def)
  have c': "\<exists>f. read_prop (Map.empty(''register_implementors'' \<mapsto> JFun 5)) ''register_implementors'' = JFun f"
    using c by blast
  have d: "actions (fragment (Map.empty(''register_implementors'' \<mapsto> JFun 5))) = [Invoked 5 [JObj implementors]]"
    by (simp add: fragment_function [OF c])
  show ?thesis
    using a b c d
      fragment_total [OF disjI1, OF a, THEN conjunct2, THEN conjunct1]
      fragment_total [OF disjI2, OF disjI1, OF b, THEN conjunct2, THEN conjunct1]
      fragment_total [OF disjI2, OF disjI2, OF c', THEN conjunct2, THEN conjunct1]
    by simp
qed

text \<open>
  Claim C9. The condition tests the value, not whether the property is defined: when
  \<open>window.register_implementors\<close> is defined and falsy, the run stores the mapping
  into \<open>window.pending_implementors\<close> and calls nothing. \<open>null\<close>, \<open>false\<close>,
  \<open>0\<close> and the empty string are such values.
\<close>

theorem falsy_reference_deferred:
  assumes "w ''register_implementors'' = Some v" and "\<not> truthy v"
  shows "actions (fragment w) = [Stored ''pending_implementors'' (JObj implementors)]
       \<and> page (fragment w) ''pending_implementors'' = Some (JObj implementors)
       \<and> invocations (fragment w) = []"
proof -
  from assms have "\<not> truthy (read_prop w ''register_implementors'')"
    by (simp add: read_prop_def)
  then show ?thesis by (simp add: fragment_falsy invocations_def)
qed

theorem falsy_reference_deferred_witness:
  "\<not> truthy JNull \<and> \<not> truthy (JBool False) \<and> \<not> truthy (JNum 0) \<and> \<not> truthy (JStr '''')
   \<and> actions (fragment (Map.empty(''register_implementors'' \<mapsto> JNull)))
        = [Stored ''pending_implementors'' (JObj implementors)]
   \<and> actions (fragment (Map.empty(''register_implementors'' \<mapsto> JBool False)))
        = [Stored ''pending_implementors'' (JObj implementors)]
   \<and> actions (fragment (Map.empty(''register_implementors'' \<mapsto> JNum 0)))
        = [Stored ''pending_implementors'' (JObj implementors)]
   \<and> actions (fragment (Map.empty(''register_implementors'' \<mapsto> JStr '''')))
        = [Stored ''pending_implementors'' (JObj implementors)]"
  using falsy_reference_deferred [of "Map.empty(''register_implementors'' \<mapsto> JNull)" JNull]
    falsy_reference_deferred [of "Map.empty(''register_implementors'' \<mapsto> JBool False)" "JBool False"]
    falsy_reference_deferred [of "Map.empty(''register_implementors'' \<mapsto> JNum 0)" "JNum 0"]
    falsy_reference_deferred [of "Map.empty(''register_implementors'' \<mapsto> JStr '''')" "JStr ''''"]
  by simp

text \<open>
  Claim C10. The run is determined by its initial page. The mapping it builds does not
  depend on the page at all; two runs from pages that read the same value from
  \<open>window.register_implementors\<close> have the same effects, in the same order, and end
  the same way; after them the two pages agree on every property on which they agreed
  before, so that equal initial pages give equal runs.
\<close>

theorem fragment_deterministic:
  assumes "read_prop w1 ''register_implementors'' = read_prop w2 ''register_implementors''"
  shows "actions (fragment w1) = actions (fragment w2)
       \<and> result (fragment w1) = result (fragment w2)
       \<and> (\<forall>p. w1 p = w2 p \<longrightarrow> page (fragment w1) p = page (fragment w2) p)
       \<and> (w1 = w2 \<longrightarrow> fragment w1 = fragment w2)"
proof (cases w1 rule: fragment_cases)
  case deferred
  with assms have "\<not> truthy (read_prop w2 ''register_implementors'')" by simp
  with deferred show ?thesis by (simp add: fragment_falsy)
next
  case (direct f)
  with assms have "read_prop w2 ''register_implementors'' = JFun f" by simp
  with direct show ?thesis by (simp add: fragment_function)
next
  case not_callable
  with assms have "truthy (read_prop w2 ''register_implementors'')"
    and "\<And>f. read_prop w2 ''register_implementors'' \<noteq> JFun f" by simp_all
  with not_callable show ?thesis by (simp add: fragment_not_callable)
qed

theorem fragment_deterministic_witness:
  "read_prop (Map.empty(''rootPath'' \<mapsto> JStr ''../'')) ''register_implementors''
     = read_prop (Map.empty(''register_implementors'' \<mapsto> JUndefined)) ''register_implementors''
   \<and> actions (fragment (Map.empty(''rootPath'' \<mapsto> JStr ''../'')))
     = actions (fragment (Map.empty(''register_implementors'' \<mapsto> JUndefined)))
   \<and> page (fragment (Map.empty(''rootPath'' \<mapsto> JStr ''../''))) ''pending_implementors''
     = page (fragment (Map.empty(''register_implementors'' \<mapsto> JUndefined))) ''pending_implementors''"
proof -
  have h: "read_prop (Map.empty(''rootPath'' \<mapsto> JStr ''../'')) ''register_implementors''
     = read_prop (Map.empty(''register_implementors'' \<mapsto> JUndefined)) ''register_implementors''"
    by (simp add: read_prop_def)
  show ?thesis using h fragment_deterministic [OF h] by simp
qed

end
